theory Spec2Isabelle
  imports Main "HOL-Library.Product_Lexorder"
begin

section \<open>Python datetimes\<close>

text \<open>
  \<^verbatim>\<open>schedule_start\<close> and \<open>schedule_end\<close> are \<^verbatim>\<open>DateTimeField\<close>s, read as Python
  \<^verbatim>\<open>datetime\<close> objects (all in UTC, as the source's comments say). A datetime is the
  tuple of its fields; the constructor has range-checked them (year from 1, month 1..12).
\<close>

record datetime =
  year :: int
  month :: int
  day :: int
  hour :: int
  minute :: int
  second :: int
  microsecond :: int

text \<open>Comparison of two datetimes compares the field tuples lexicographically.\<close>

definition dt_key :: "datetime \<Rightarrow> int \<times> int \<times> int \<times> int \<times> int \<times> int \<times> int" where
  "dt_key d = (year d, month d, day d, hour d, minute d, second d, microsecond d)"

definition dt_lt :: "datetime \<Rightarrow> datetime \<Rightarrow> bool" where
  "dt_lt a b = (dt_key a < dt_key b)"

definition dt_gt :: "datetime \<Rightarrow> datetime \<Rightarrow> bool" where
  "dt_gt a b = dt_lt b a"

text \<open>
  \<^verbatim>\<open>date.weekday()\<close> of the standard library: Monday is 0, computed from the proleptic
  Gregorian ordinal of the date.
\<close>

definition is_leap :: "int \<Rightarrow> bool" where
  "is_leap y = (y mod 4 = 0 \<and> (y mod 100 \<noteq> 0 \<or> y mod 400 = 0))"

definition days_before_year :: "int \<Rightarrow> int" where
  "days_before_year y = (let p = y - 1 in p * 365 + p div 4 - p div 100 + p div 400)"

definition DAYS_BEFORE_MONTH :: "int list" where
  "DAYS_BEFORE_MONTH = [-1, 0, 31, 59, 90, 120, 151, 181, 212, 243, 273, 304, 334]"

definition days_before_month :: "int \<Rightarrow> int \<Rightarrow> int" where
  "days_before_month y m =
     DAYS_BEFORE_MONTH ! nat m + (if m > 2 \<and> is_leap y then 1 else 0)"

definition ymd2ord :: "int \<Rightarrow> int \<Rightarrow> int \<Rightarrow> int" where
  "ymd2ord y m d = days_before_year y + days_before_month y m + d"

definition weekday :: "datetime \<Rightarrow> int" where
  "weekday d = (ymd2ord (year d) (month d) (day d) + 6) mod 7"

section \<open>Models\<close>

text \<open>
  Every model instance has a primary key, \<open>None\<close> until the instance is saved. The models
  of the source derive from \<^verbatim>\<open>BaseUUIDModel\<close>, whose \<^verbatim>\<open>external_id\<close> the permission
  checks look rows up by. A foreign key field holds the primary key of the row it refers to.
  Fields that no function of the source reads (names, links, coordinates, dates of
  activation) are left out of the records.
\<close>

record Model =
  pk :: "nat option"

record BaseUUIDModel = Model +
  external_id :: string

record User = Model +
  is_superuser :: bool

record Program = BaseUUIDModel +
  program_director :: "nat option"

record Computer = BaseUUIDModel +
  program :: nat

record Slot = BaseUUIDModel +
  computer :: "nat option"
  language :: string
  schedule_start :: datetime
  schedule_end :: datetime
  max_students :: int
  assigned_students :: int
  is_mentor_assigned :: bool
  is_student_assigned :: bool

record database =
  programs :: "Program list"
  computers :: "Computer list"
  slots :: "Slot list"

definition empty_db :: database where
  "empty_db = \<lparr>programs = [], computers = [], slots = []\<rparr>"

text \<open>
  The request: its user (an anonymous user has no primary key and is no superuser) and
  \<^verbatim>\<open>parser_context["kwargs"]\<close>, the keyword arguments of the URL.
\<close>

record request =
  user :: User
  kwargs :: "string \<rightharpoonup> string"

datatype on_delete = CASCADE | PROTECT | SET_NULL

datatype error =
    ValidationError string string
  | DoesNotExist
  | MultipleObjectsReturned
  | KeyError
  | AttributeError
  | ProtectedError
  | NotFoundError
  | CapacityExceededError

subsection \<open>Queries\<close>

text \<open>\<^verbatim>\<open>objects.get(external_id=...)\<close>: exactly one matching row, or an exception.\<close>

definition objects_get :: "('a BaseUUIDModel_scheme) list \<Rightarrow> string \<Rightarrow> error + 'a BaseUUIDModel_scheme" where
  "objects_get rows ext =
     (case filter (\<lambda>r. external_id r = ext) rows of
        [] \<Rightarrow> Inl DoesNotExist
      | [r] \<Rightarrow> Inr r
      | _ \<Rightarrow> Inl MultipleObjectsReturned)"

text \<open>Following a foreign key to the row with that primary key.\<close>

definition related :: "('a Model_scheme) list \<Rightarrow> nat \<Rightarrow> error + 'a Model_scheme" where
  "related rows k =
     (case filter (\<lambda>r. pk r = Some k) rows of
        [] \<Rightarrow> Inl DoesNotExist
      | r # _ \<Rightarrow> Inr r)"

text \<open>
  \<^verbatim>\<open>request.user == program.program_director\<close>: model instances are equal when their
  primary keys are; an instance without a primary key equals only itself, and nothing
  equals the \<^verbatim>\<open>None\<close> of an empty foreign key.
\<close>

definition user_eq :: "User \<Rightarrow> nat option \<Rightarrow> bool" where
  "user_eq u director =
     (case director of
        None \<Rightarrow> False
      | Some k \<Rightarrow> (case pk u of None \<Rightarrow> False | Some m \<Rightarrow> m = k))"

section \<open>Program, School, Computer: permissions\<close>

definition Program_has_create_permission :: "request \<Rightarrow> bool" where
  "Program_has_create_permission request = is_superuser (user request)"

definition Program_has_write_permission :: "request \<Rightarrow> bool" where
  "Program_has_write_permission request = True"

definition School_has_write_permission :: "request \<Rightarrow> bool" where
  "School_has_write_permission request = True"

definition Computer_has_write_permission :: "request \<Rightarrow> bool" where
  "Computer_has_write_permission request = True"

section \<open>Slot\<close>

definition DEAFULT_INIT_DATE :: datetime where
  "DEAFULT_INIT_DATE =
     \<lparr>year = 2000, month = 1, day = 3, hour = 0, minute = 0, second = 0, microsecond = 0\<rparr>"

definition Slot_computer_on_delete :: on_delete where
  "Slot_computer_on_delete = PROTECT"

subsection \<open>save\<close>

text \<open>
  The row filter of \<^verbatim>\<open>save\<close>:
  \<^verbatim>\<open>filter(computer=self.computer, schedule_end__gt=self.schedule_start,
  schedule_start__lt=self.schedule_end)\<close>. A \<^verbatim>\<open>None\<close> computer matches the rows whose
  computer is null.
\<close>

definition conflict_filter :: "Slot \<Rightarrow> Slot \<Rightarrow> bool" where
  "conflict_filter self row =
     (computer row = computer self
      \<and> dt_gt (schedule_end row) (schedule_start self)
      \<and> dt_lt (schedule_start row) (schedule_end self))"

text \<open>
  \<^verbatim>\<open>super().save()\<close>: an instance without a primary key is inserted under the next
  key of the table; an instance with one replaces the row of that key, and is inserted
  under its key when there is no such row.
\<close>

fun max_pk :: "('a Model_scheme) list \<Rightarrow> nat" where
  "max_pk [] = 0"
| "max_pk (r # rs) = (case pk r of None \<Rightarrow> max_pk rs | Some k \<Rightarrow> max k (max_pk rs))"

definition Model_save :: "Slot \<Rightarrow> database \<Rightarrow> (error + Slot) \<times> database" where
  "Model_save self db =
     (case pk self of
        None \<Rightarrow>
          (let row = self\<lparr>pk := Some (Suc (max_pk (slots db)))\<rparr>
           in (Inr row, db\<lparr>slots := slots db @ [row]\<rparr>))
      | Some k \<Rightarrow>
          if list_ex (\<lambda>r. pk r = Some k) (slots db)
          then (Inr self, db\<lparr>slots := map (\<lambda>r. if pk r = Some k then self else r) (slots db)\<rparr>)
          else (Inr self, db\<lparr>slots := slots db @ [self]\<rparr>))"

text \<open>
  \<^verbatim>\<open>Slot.save\<close> returns the outcome and the database after the call; an exception leaves
  the database as it was.
\<close>

definition Slot_save :: "Slot \<Rightarrow> database \<Rightarrow> (error + Slot) \<times> database" where
  "Slot_save self db =
     (if list_ex (conflict_filter self) (slots db)
      then (Inl (ValidationError ''schedule'' ''Conflict Found''), db)
      else Model_save self db)"

subsection \<open>Weekly breakdown\<close>

definition start_day_of_the_week :: "Slot \<Rightarrow> int" where
  "start_day_of_the_week self = weekday (schedule_start self)"

definition end_day_of_the_week :: "Slot \<Rightarrow> int" where
  "end_day_of_the_week self = weekday (schedule_end self)"

definition start_hour :: "Slot \<Rightarrow> int" where
  "start_hour self = hour (schedule_start self)"

definition end_hour :: "Slot \<Rightarrow> int" where
  "end_hour self = hour (schedule_end self)"

definition start_minute :: "Slot \<Rightarrow> int" where
  "start_minute self = minute (schedule_start self)"

definition end_minute :: "Slot \<Rightarrow> int" where
  "end_minute self = minute (schedule_end self)"

subsection \<open>Permissions\<close>

definition Slot_has_create_permission :: "database \<Rightarrow> request \<Rightarrow> error + bool" where
  "Slot_has_create_permission db request =
     (case kwargs request ''computer_external_id'' of
        None \<Rightarrow> Inl KeyError
      | Some ext \<Rightarrow>
          (case objects_get (computers db) ext of
             Inl e \<Rightarrow> Inl e
           | Inr cpu \<Rightarrow>
               if is_superuser (user request) then Inr True
               else (case related (programs db) (program cpu) of
                       Inl e \<Rightarrow> Inl e
                     | Inr p \<Rightarrow> Inr (user_eq (user request) (program_director p)))))"

definition Slot_has_write_permission :: "request \<Rightarrow> bool" where
  "Slot_has_write_permission request = True"

text \<open>
  \<^verbatim>\<open>request.user.is_superuser or request.user == self.computer.program.program_director\<close>:
  the right operand is evaluated only for a user who is no superuser; reading
  \<^verbatim>\<open>.program\<close> of a \<^verbatim>\<open>None\<close> computer raises \<^verbatim>\<open>AttributeError\<close>.
\<close>

definition Slot_has_object_write_permission :: "Slot \<Rightarrow> database \<Rightarrow> request \<Rightarrow> error + bool" where
  "Slot_has_object_write_permission self db request =
     (if is_superuser (user request) then Inr True
      else (case computer self of
              None \<Rightarrow> Inl AttributeError
            | Some c \<Rightarrow>
                (case related (computers db) c of
                   Inl e \<Rightarrow> Inl e
                 | Inr cpu \<Rightarrow>
                     (case related (programs db) (program cpu) of
                        Inl e \<Rightarrow> Inl e
                      | Inr p \<Rightarrow> Inr (user_eq (user request) (program_director p))))))"

definition Slot_has_object_update_permission :: "Slot \<Rightarrow> database \<Rightarrow> request \<Rightarrow> error + bool" where
  "Slot_has_object_update_permission self db request =
     Slot_has_object_write_permission self db request"

definition Slot_has_object_read_permission :: "Slot \<Rightarrow> database \<Rightarrow> request \<Rightarrow> error + bool" where
  "Slot_has_object_read_permission self db request =
     Slot_has_object_write_permission self db request"

subsection \<open>Deleting\<close>

text \<open>
  Modelled from the spec: \<^verbatim>\<open>deleteSlot(slotId)\<close>, which removes the slot or fails with
  \<^verbatim>\<open>NotFoundError\<close> and no side effect. The source inherits \<^verbatim>\<open>delete\<close> from
  \<^verbatim>\<open>BaseUUIDModel\<close>, which is not part of the source file.
\<close>

definition deleteSlot :: "nat \<Rightarrow> database \<Rightarrow> (error + unit) \<times> database" where
  "deleteSlot slotId db =
     (if list_ex (\<lambda>r. pk r = Some slotId) (slots db)
      then (Inr (), db\<lparr>slots := filter (\<lambda>r. pk r \<noteq> Some slotId) (slots db)\<rparr>)
      else (Inl NotFoundError, db))"

text \<open>
  Deleting the computer with primary key \<open>c\<close>, under the \<^verbatim>\<open>on_delete\<close> that the foreign
  key \<^verbatim>\<open>Slot.computer\<close> declares: \<^verbatim>\<open>PROTECT\<close> raises while a slot refers to the
  computer, \<^verbatim>\<open>SET_NULL\<close> empties the references, \<^verbatim>\<open>CASCADE\<close> deletes the slots.
\<close>

definition delete_computer_with :: "on_delete \<Rightarrow> nat \<Rightarrow> database \<Rightarrow> (error + unit) \<times> database" where
  "delete_computer_with policy c db =
     (let remaining = filter (\<lambda>r. pk r \<noteq> Some c) (computers db)
      in if \<not> list_ex (\<lambda>r. computer r = Some c) (slots db)
         then (Inr (), db\<lparr>computers := remaining\<rparr>)
         else (case policy of
                 PROTECT \<Rightarrow> (Inl ProtectedError, db)
               | SET_NULL \<Rightarrow>
                   (Inr (), db\<lparr>computers := remaining,
                      slots := map (\<lambda>r. if computer r = Some c then r\<lparr>computer := None\<rparr> else r) (slots db)\<rparr>)
               | CASCADE \<Rightarrow>
                   (Inr (), db\<lparr>computers := remaining,
                      slots := filter (\<lambda>r. computer r \<noteq> Some c) (slots db)\<rparr>)))"

definition Computer_delete :: "nat \<Rightarrow> database \<Rightarrow> (error + unit) \<times> database" where
  "Computer_delete c db = delete_computer_with Slot_computer_on_delete c db"

subsection \<open>Sequences of creations and deletions\<close>

text \<open>
  Creating a slot saves a fresh instance, one without a primary key. An operation that
  fails leaves the database as it was.
\<close>

datatype operation = Create Slot | Delete nat

fun apply_operation :: "operation \<Rightarrow> database \<Rightarrow> database" where
  "apply_operation (Create s) db = snd (Slot_save (s\<lparr>pk := None\<rparr>) db)"
| "apply_operation (Delete k) db = snd (deleteSlot k db)"

definition run :: "operation list \<Rightarrow> database \<Rightarrow> database" where
  "run ops db = fold apply_operation ops db"

subsection \<open>Capacity\<close>

text \<open>
  Modelled from the spec: \<^verbatim>\<open>assignStudent(slot)\<close>, which fails with
  \<^verbatim>\<open>CapacityExceededError\<close> when \<^verbatim>\<open>assigned_students == max_students\<close> and otherwise
  increments \<^verbatim>\<open>assigned_students\<close> and sets \<^verbatim>\<open>is_student_assigned\<close>. The source file
  declares the two counters and the flag; no function of it updates them. The result is
  the outcome and the slot after the call.
\<close>

definition assignStudent :: "Slot \<Rightarrow> (error + unit) \<times> Slot" where
  "assignStudent slot =
     (if assigned_students slot = max_students slot
      then (Inl CapacityExceededError, slot)
      else (Inr (), slot\<lparr>assigned_students := assigned_students slot + 1,
                         is_student_assigned := True\<rparr>))"

text \<open>\<open>n\<close> calls in a row, stopping at the first that fails.\<close>

fun assign_times :: "nat \<Rightarrow> Slot \<Rightarrow> error + Slot" where
  "assign_times 0 slot = Inr slot"
| "assign_times (Suc n) slot =
     (case assignStudent slot of
        (Inl e, _) \<Rightarrow> Inl e
      | (Inr _, slot') \<Rightarrow> assign_times n slot')"

definition capacity_ok :: "Slot \<Rightarrow> bool" where
  "capacity_ok slot = (0 \<le> assigned_students slot \<and> assigned_students slot \<le> max_students slot)"

section \<open>Properties stated by the specification\<close>

text \<open>
  The overlap rule of the specification's first invariant:
  \<^verbatim>\<open>existing.end > new.start AND existing.start < new.end\<close>.
\<close>

definition overlap :: "Slot \<Rightarrow> Slot \<Rightarrow> bool" where
  "overlap existing new =
     (dt_gt (schedule_end existing) (schedule_start new)
      \<and> dt_lt (schedule_start existing) (schedule_end new))"

text \<open>No row overlaps a later row of the same computer.\<close>

fun no_overlap :: "Slot list \<Rightarrow> bool" where
  "no_overlap [] = True"
| "no_overlap (r # rs) =
     (list_all (\<lambda>r'. computer r' = computer r \<longrightarrow> \<not> overlap r r') rs \<and> no_overlap rs)"

text \<open>The slot table is in order: no overlap, and no primary key twice.\<close>

definition table_ok :: "Slot list \<Rightarrow> bool" where
  "table_ok rows = (no_overlap rows \<and> distinct (map pk rows))"

section \<open>Example data\<close>

text \<open>
  A slot as the constructor builds it from a computer and two datetimes, with the
  defaults of the field declarations. The external id, a random UUID, is left empty: no
  function here reads a slot's.
\<close>

definition new_slot :: "nat option \<Rightarrow> datetime \<Rightarrow> datetime \<Rightarrow> Slot" where
  "new_slot c a b =
     \<lparr>pk = None, external_id = [], computer = c, language = ''ENGLISH'',
      schedule_start = a, schedule_end = b, max_students = 1, assigned_students = 0,
      is_mentor_assigned = False, is_student_assigned = False\<rparr>"

text \<open>A time on the Monday of the reference week.\<close>

definition monday :: "int \<Rightarrow> datetime" where
  "monday h = DEAFULT_INIT_DATE\<lparr>hour := h\<rparr>"

definition db_10_12 :: database where
  "db_10_12 = snd (Slot_save (new_slot (Some 1) (monday 10) (monday 12)) empty_db)"

definition stored_10_12 :: Slot where
  "stored_10_12 = (new_slot (Some 1) (monday 10) (monday 12))\<lparr>pk := Some 1\<rparr>"

text \<open>A slot that ends two hours before it starts, and one that lasts two days.\<close>

definition backwards_slot :: Slot where
  "backwards_slot = new_slot (Some 1) (monday 12) (monday 10)"

definition two_day_slot :: Slot where
  "two_day_slot = new_slot (Some 1) (monday 10) (DEAFULT_INIT_DATE\<lparr>day := 5, hour := 10\<rparr>)"

text \<open>3 January 2005, a Monday as well.\<close>

definition monday_2005 :: "int \<Rightarrow> datetime" where
  "monday_2005 h = DEAFULT_INIT_DATE\<lparr>year := 2005, hour := h\<rparr>"

text \<open>A slot with two students assigned and room for one.\<close>

definition crowded_slot :: Slot where
  "crowded_slot = (new_slot (Some 1) (monday 10) (monday 12))\<lparr>assigned_students := 2\<rparr>"

text \<open>
  One program, directed by user 7, with one computer and one slot on it; and a request
  for that computer by the user with the given primary key.
\<close>

definition village_db :: database where
  "village_db =
     \<lparr>programs = [\<lparr>pk = Some 1, external_id = ''p1'', program_director = Some 7\<rparr>],
      computers = [\<lparr>pk = Some 1, external_id = ''c1'', program = 1\<rparr>],
      slots = [stored_10_12]\<rparr>"

definition request_of :: "nat option \<Rightarrow> bool \<Rightarrow> request" where
  "request_of k su =
     \<lparr>user = \<lparr>pk = k, is_superuser = su\<rparr>,
      kwargs = [''computer_external_id'' \<mapsto> ''c1'']\<rparr>"

section \<open>Saving a slot: the conflict check\<close>

lemmas example_defs = db_10_12_def Slot_save_def Model_save_def new_slot_def monday_def
  DEAFULT_INIT_DATE_def empty_db_def conflict_filter_def dt_gt_def dt_lt_def dt_key_def Let_def

lemmas village_defs = village_db_def stored_10_12_def request_of_def new_slot_def monday_def
  DEAFULT_INIT_DATE_def

lemma overlap_sym: "overlap a b = overlap b a"
  by (auto simp add: overlap_def dt_gt_def)

lemma conflict_filter_overlap:
  "conflict_filter self row = (computer row = computer self \<and> overlap row self)"
  by (simp add: conflict_filter_def overlap_def)

lemma no_overlap_append:
  "no_overlap (rs @ [s]) =
     (no_overlap rs \<and> (\<forall>r \<in> set rs. computer s = computer r \<longrightarrow> \<not> overlap r s))"
  by (induction rs) (auto simp add: list_all_iff)

lemma no_overlap_filter: "no_overlap rs \<Longrightarrow> no_overlap (filter P rs)"
  by (induction rs) (auto simp add: list_all_iff)

lemma no_overlap_replace:
  assumes "distinct (map pk rs)" and "no_overlap rs"
    and "\<forall>r \<in> set rs. \<not> conflict_filter self r"
  shows "no_overlap (map (\<lambda>r. if pk r = Some k then self else r) rs)"
  using assms
proof (induction rs)
  case Nil
  then show ?case by simp
next
  case (Cons r rs)
  let ?f = "\<lambda>r. if pk r = Some k then self else r"
  have free: "\<forall>r' \<in> set rs. computer r' = computer self \<longrightarrow> \<not> overlap self r'"
    using Cons.prems(3) by (auto simp add: conflict_filter_overlap overlap_sym)
  have tail: "no_overlap (map ?f rs)"
    using Cons by simp
  show ?case
  proof (cases "pk r = Some k")
    case True
    then have "\<forall>r' \<in> set rs. pk r' \<noteq> Some k"
      using Cons.prems(1) by (auto simp add: image_iff)
    then have "map ?f rs = rs"
      by (simp add: map_idI)
    then show ?thesis
      using True free Cons.prems(2) by (simp add: list_all_iff)
  next
    case False
    have "\<not> conflict_filter self r"
      using Cons.prems(3) by simp
    then have "computer self = computer r \<longrightarrow> \<not> overlap r self"
      by (auto simp add: conflict_filter_overlap)
    then show ?thesis
      using False tail Cons.prems(2) by (auto simp add: list_all_iff)
  qed
qed

lemma max_pk_ge: "r \<in> set rs \<Longrightarrow> pk r = Some k \<Longrightarrow> k \<le> max_pk rs"
  by (induction rs) (auto split: option.splits)

lemma next_pk_fresh: "Some (Suc (max_pk rs)) \<notin> pk ` set rs"
proof
  assume "Some (Suc (max_pk rs)) \<in> pk ` set rs"
  then obtain r where "r \<in> set rs" and "pk r = Some (Suc (max_pk rs))"
    by (auto simp add: image_iff)
  then have "Suc (max_pk rs) \<le> max_pk rs"
    by (rule max_pk_ge)
  then show False by simp
qed

lemma replace_keeps_pks:
  "pk self = Some k \<Longrightarrow> map pk (map (\<lambda>r. if pk r = Some k then self else r) rs) = map pk rs"
  by (induction rs) auto

lemma Model_save_table_ok:
  assumes "table_ok (slots db)" and "\<not> list_ex (conflict_filter self) (slots db)"
  shows "table_ok (slots (snd (Model_save self db)))"
proof (cases "pk self")
  case None
  have "\<forall>r \<in> set (slots db). computer self = computer r \<longrightarrow> \<not> overlap r self"
    using assms(2) by (auto simp add: list_ex_iff conflict_filter_overlap)
  then show ?thesis
    using None assms(1) next_pk_fresh [of "slots db"]
    by (simp add: Model_save_def Let_def table_ok_def no_overlap_append conflict_filter_overlap overlap_def)
next
  case (Some k)
  have nc: "\<forall>r \<in> set (slots db). \<not> conflict_filter self r"
    using assms(2) by (simp add: list_ex_iff)
  show ?thesis
  proof (cases "list_ex (\<lambda>r. pk r = Some k) (slots db)")
    case True
    have "map pk (map (\<lambda>r. if pk r = Some k then self else r) (slots db)) = map pk (slots db)"
      using Some by (rule replace_keeps_pks)
    then have "distinct (map pk (map (\<lambda>r. if pk r = Some k then self else r) (slots db)))"
      using assms(1) by (simp only: table_ok_def)
    then show ?thesis
      using Some True assms(1) nc no_overlap_replace [of "slots db" self k]
      by (simp add: Model_save_def table_ok_def del: map_map)
  next
    case False
    then have "Some k \<notin> pk ` set (slots db)"
      by (auto simp add: list_ex_iff)
    moreover have "\<forall>r \<in> set (slots db). computer self = computer r \<longrightarrow> \<not> overlap r self"
      using nc by (auto simp add: conflict_filter_overlap)
    ultimately show ?thesis
      using Some False assms(1)
      by (simp add: Model_save_def table_ok_def no_overlap_append)
  qed
qed

lemma Slot_save_table_ok:
  "table_ok (slots db) \<Longrightarrow> table_ok (slots (snd (Slot_save self db)))"
  by (simp add: Slot_save_def Model_save_table_ok)

lemma deleteSlot_table_ok:
  "table_ok (slots db) \<Longrightarrow> table_ok (slots (snd (deleteSlot k db)))"
  by (simp add: deleteSlot_def table_ok_def no_overlap_filter distinct_map_filter)

lemma run_table_ok: "table_ok (slots db) \<Longrightarrow> table_ok (slots (run ops db))"
  unfolding run_def
proof (induction ops arbitrary: db)
  case Nil
  then show ?case by simp
next
  case (Cons x ops)
  have "table_ok (slots (apply_operation x db))"
    using Cons.prems by (cases x) (simp_all add: Slot_save_table_ok deleteSlot_table_ok)
  then show ?case
    using Cons.IH by simp
qed

lemma no_overlap_pairs:
  "no_overlap rs =
     (\<forall>i<length rs. \<forall>j<length rs. i \<noteq> j \<and> computer (rs ! i) = computer (rs ! j)
        \<longrightarrow> \<not> overlap (rs ! i) (rs ! j))"
proof (induction rs)
  case Nil
  then show ?case by simp
next
  case (Cons r rs)
  show ?case
  proof
    assume L: "no_overlap (r # rs)"
    show "\<forall>i<length (r # rs). \<forall>j<length (r # rs). i \<noteq> j \<and> computer ((r # rs) ! i) = computer ((r # rs) ! j)
        \<longrightarrow> \<not> overlap ((r # rs) ! i) ((r # rs) ! j)"
    proof (intro allI impI)
      fix i j
      assume i: "i < length (r # rs)" and j: "j < length (r # rs)"
        and ij: "i \<noteq> j \<and> computer ((r # rs) ! i) = computer ((r # rs) ! j)"
      show "\<not> overlap ((r # rs) ! i) ((r # rs) ! j)"
      proof (cases i)
        case 0
        then obtain j' where "j = Suc j'" using ij by (cases j) auto
        then show ?thesis using 0 L j ij by (auto simp add: list_all_iff)
      next
        case (Suc i')
        show ?thesis
        proof (cases j)
          case 0
          then show ?thesis using Suc L i ij by (auto simp add: list_all_iff overlap_sym)
        next
          case (Suc j')
          then show ?thesis using \<open>i = Suc i'\<close> L i j ij Cons.IH by auto
        qed
      qed
    qed
  next
    assume R: "\<forall>i<length (r # rs). \<forall>j<length (r # rs). i \<noteq> j \<and> computer ((r # rs) ! i) = computer ((r # rs) ! j)
        \<longrightarrow> \<not> overlap ((r # rs) ! i) ((r # rs) ! j)"
    have "no_overlap rs"
    proof -
      have "\<forall>i<length rs. \<forall>j<length rs. i \<noteq> j \<and> computer (rs ! i) = computer (rs ! j)
        \<longrightarrow> \<not> overlap (rs ! i) (rs ! j)"
      proof (intro allI impI)
        fix i j assume "i < length rs" "j < length rs" "i \<noteq> j \<and> computer (rs ! i) = computer (rs ! j)"
        then show "\<not> overlap (rs ! i) (rs ! j)"
          using R [rule_format, of "Suc i" "Suc j"] by simp
      qed
      then show ?thesis using Cons.IH by simp
    qed
    moreover have "list_all (\<lambda>r'. computer r' = computer r \<longrightarrow> \<not> overlap r r') rs"
    proof -
      have "\<forall>r' \<in> set rs. computer r' = computer r \<longrightarrow> \<not> overlap r r'"
      proof (intro ballI impI)
        fix r' assume "r' \<in> set rs" and c: "computer r' = computer r"
        then obtain j where "j < length rs" and "rs ! j = r'"
          by (auto simp add: in_set_conv_nth)
        then show "\<not> overlap r r'"
          using R [rule_format, of 0 "Suc j"] c by simp
      qed
      then show ?thesis by (simp add: list_all_iff)
    qed
    ultimately show "no_overlap (r # rs)" by simp
  qed
qed

text \<open>
  C1. Saving a slot fails exactly when some stored slot of the same computer has
  \<open>schedule_end > self.schedule_start\<close> and \<open>schedule_start < self.schedule_end\<close>; the
  failure is the validation error "Conflict Found" and leaves the database as it was.
  After [Mon 10:00, Mon 12:00) on computer 1, saving [Mon 11:00, Mon 13:00) on that
  computer fails with the conflict, and saving [Mon 12:00, Mon 14:00) inserts the slot.
\<close>

theorem Slot_save_conflict_iff:
  "(isl (fst (Slot_save self db)) \<longleftrightarrow>
      (\<exists>row \<in> set (slots db). computer row = computer self
          \<and> dt_gt (schedule_end row) (schedule_start self)
          \<and> dt_lt (schedule_start row) (schedule_end self)))
   \<and> (isl (fst (Slot_save self db)) \<longrightarrow>
        fst (Slot_save self db) = Inl (ValidationError ''schedule'' ''Conflict Found'')
        \<and> snd (Slot_save self db) = db)
   \<and> (pk self = None \<and> \<not> isl (fst (Slot_save self db)) \<longrightarrow>
        (\<exists>row. Slot_save self db = (Inr row, db\<lparr>slots := slots db @ [row]\<rparr>)
           \<and> row = self\<lparr>pk := pk row\<rparr>))
   \<and> \<not> isl (fst (Slot_save (new_slot (Some 1) (monday 10) (monday 12)) empty_db))
   \<and> fst (Slot_save (new_slot (Some 1) (monday 11) (monday 13)) db_10_12)
       = Inl (ValidationError ''schedule'' ''Conflict Found'')
   \<and> (\<exists>row. Slot_save (new_slot (Some 1) (monday 12) (monday 14)) db_10_12
           = (Inr row, db_10_12\<lparr>slots := slots db_10_12 @ [row]\<rparr>))"
proof (intro conjI)
  show "isl (fst (Slot_save self db)) \<longleftrightarrow>
      (\<exists>row \<in> set (slots db). computer row = computer self
          \<and> dt_gt (schedule_end row) (schedule_start self)
          \<and> dt_lt (schedule_start row) (schedule_end self))"
    by (auto simp add: Slot_save_def Model_save_def Let_def list_ex_iff conflict_filter_def
        split: option.splits)
  show "isl (fst (Slot_save self db)) \<longrightarrow>
        fst (Slot_save self db) = Inl (ValidationError ''schedule'' ''Conflict Found'')
        \<and> snd (Slot_save self db) = db"
    by (simp add: Slot_save_def Model_save_def Let_def split: option.splits)
  show "pk self = None \<and> \<not> isl (fst (Slot_save self db)) \<longrightarrow>
        (\<exists>row. Slot_save self db = (Inr row, db\<lparr>slots := slots db @ [row]\<rparr>)
           \<and> row = self\<lparr>pk := pk row\<rparr>)"
    by (simp add: Slot_save_def Model_save_def Let_def)
  show "\<not> isl (fst (Slot_save (new_slot (Some 1) (monday 10) (monday 12)) empty_db))"
    by (simp add: example_defs)
  show "fst (Slot_save (new_slot (Some 1) (monday 11) (monday 13)) db_10_12)
       = Inl (ValidationError ''schedule'' ''Conflict Found'')"
    by (simp add: example_defs)
  show "\<exists>row. Slot_save (new_slot (Some 1) (monday 12) (monday 14)) db_10_12
           = (Inr row, db_10_12\<lparr>slots := slots db_10_12 @ [row]\<rparr>)"
    by (simp add: example_defs)
qed

theorem Slot_save_conflict_iff_witness:
  "isl (fst (Slot_save (new_slot (Some 1) (monday 11) (monday 13)) db_10_12))
   \<and> snd (Slot_save (new_slot (Some 1) (monday 11) (monday 13)) db_10_12) = db_10_12
   \<and> pk (new_slot (Some 1) (monday 12) (monday 14)) = None
   \<and> \<not> isl (fst (Slot_save (new_slot (Some 1) (monday 12) (monday 14)) db_10_12))
   \<and> length (slots (snd (Slot_save (new_slot (Some 1) (monday 12) (monday 14)) db_10_12))) = 2"
  using Slot_save_conflict_iff [of "new_slot (Some 1) (monday 11) (monday 13)" db_10_12]
    Slot_save_conflict_iff [of "new_slot (Some 1) (monday 12) (monday 14)" db_10_12]
  by (simp add: example_defs)

text \<open>
  C2. After any sequence of creations and deletions from the empty database, no two
  stored slots of the same computer overlap by the rule
  \<open>existing.end > new.start\<close> and \<open>existing.start < new.end\<close>; and a save, of a new or of
  a stored slot, takes a table without overlap and without a repeated primary key to
  such a table.
\<close>

theorem no_overlap_invariant:
  "(let rows = slots (run ops empty_db)
    in \<forall>i<length rows. \<forall>j<length rows.
         i \<noteq> j \<and> computer (rows ! i) = computer (rows ! j) \<longrightarrow> \<not> overlap (rows ! i) (rows ! j))
   \<and> (table_ok (slots db) \<longrightarrow> table_ok (slots (snd (Slot_save self db))))"
proof -
  have "table_ok (slots empty_db)"
    by (simp add: table_ok_def empty_db_def)
  then have "no_overlap (slots (run ops empty_db))"
    using run_table_ok [of empty_db ops] by (simp add: table_ok_def)
  then show ?thesis
    using no_overlap_pairs [of "slots (run ops empty_db)"] Slot_save_table_ok [of db self]
    by (simp add: Let_def)
qed

theorem no_overlap_invariant_witness:
  "(let rows = slots (run [Create (new_slot (Some 1) (monday 10) (monday 12)),
                          Create (new_slot (Some 1) (monday 11) (monday 13)),
                          Create (new_slot (Some 1) (monday 12) (monday 14))] empty_db)
    in length rows = 2 \<and> computer (rows ! 0) = computer (rows ! 1)
       \<and> \<not> overlap (rows ! 0) (rows ! 1))
   \<and> table_ok (slots db_10_12)
   \<and> table_ok (slots (snd (Slot_save (new_slot (Some 1) (monday 12) (monday 14)) db_10_12)))"
  using no_overlap_invariant [of
      "[Create (new_slot (Some 1) (monday 10) (monday 12)),
        Create (new_slot (Some 1) (monday 11) (monday 13)),
        Create (new_slot (Some 1) (monday 12) (monday 14))]"
      db_10_12 "new_slot (Some 1) (monday 12) (monday 14)"]
  by (simp add: example_defs run_def table_ok_def overlap_def)

section \<open>Saving a slot: what is not checked\<close>

text \<open>
  C3 (as the code has it). \<^verbatim>\<open>save\<close> has no check of the range: a new slot whose
  \<open>schedule_end\<close> is not after its \<open>schedule_start\<close> fails only by a conflict with a
  stored slot, and is stored when no stored slot of its computer passes the filter, as
  into the empty database.
\<close>

theorem Slot_save_backwards_range:
  "pk self = None \<and> \<not> dt_gt (schedule_end self) (schedule_start self) \<longrightarrow>
     (isl (fst (Slot_save self db)) \<longrightarrow>
        fst (Slot_save self db) = Inl (ValidationError ''schedule'' ''Conflict Found'')
        \<and> list_ex (conflict_filter self) (slots db))
     \<and> (\<not> list_ex (conflict_filter self) (slots db) \<longrightarrow>
          (\<exists>row. Slot_save self db = (Inr row, db\<lparr>slots := slots db @ [row]\<rparr>)
             \<and> schedule_start row = schedule_start self
             \<and> schedule_end row = schedule_end self))
     \<and> (\<exists>row. Slot_save self empty_db = (Inr row, empty_db\<lparr>slots := [row]\<rparr>))"
  by (auto simp add: Slot_save_def Model_save_def Let_def empty_db_def split: option.splits)

theorem Slot_save_backwards_range_witness:
  "pk backwards_slot = None
   \<and> \<not> dt_gt (schedule_end backwards_slot) (schedule_start backwards_slot)
   \<and> \<not> list_ex (conflict_filter backwards_slot) (slots empty_db)
   \<and> (\<exists>row. Slot_save backwards_slot empty_db
                = (Inr row, empty_db\<lparr>slots := slots empty_db @ [row]\<rparr>)
         \<and> schedule_start row = monday 12 \<and> schedule_end row = monday 10)"
  using Slot_save_backwards_range [of backwards_slot empty_db]
  by (simp add: example_defs backwards_slot_def)

text \<open>
  C3 as stated fails: the slot from Monday 12:00 back to Monday 10:00 and the slot from
  Monday 10:00 to Wednesday 10:00 are both saved into the empty database.
\<close>

theorem Slot_save_invalid_range_counterexample:
  "\<not> dt_gt (schedule_end backwards_slot) (schedule_start backwards_slot)
   \<and> Slot_save backwards_slot empty_db
       = (Inr (backwards_slot\<lparr>pk := Some 1\<rparr>), empty_db\<lparr>slots := [backwards_slot\<lparr>pk := Some 1\<rparr>]\<rparr>)
   \<and> schedule_start two_day_slot = DEAFULT_INIT_DATE\<lparr>hour := 10\<rparr>
   \<and> schedule_end two_day_slot = DEAFULT_INIT_DATE\<lparr>day := 5, hour := 10\<rparr>
   \<and> Slot_save two_day_slot empty_db
       = (Inr (two_day_slot\<lparr>pk := Some 1\<rparr>), empty_db\<lparr>slots := [two_day_slot\<lparr>pk := Some 1\<rparr>]\<rparr>)"
  by (simp add: example_defs backwards_slot_def two_day_slot_def)

text \<open>
  C4. The conflict check compares the whole datetimes. The two candidates below are on
  the same computer and agree in the weekday, hour and minute of both ends; they differ
  in the year. Against the stored slot [Mon 10:00, Mon 12:00) the one of the year 2000
  is refused and the one of the year 2005 is stored.
\<close>

theorem conflict_depends_on_year:
  "computer (new_slot (Some 1) (monday_2005 11) (monday_2005 13))
     = computer (new_slot (Some 1) (monday 11) (monday 13))
   \<and> start_day_of_the_week (new_slot (Some 1) (monday_2005 11) (monday_2005 13))
     = start_day_of_the_week (new_slot (Some 1) (monday 11) (monday 13))
   \<and> end_day_of_the_week (new_slot (Some 1) (monday_2005 11) (monday_2005 13))
     = end_day_of_the_week (new_slot (Some 1) (monday 11) (monday 13))
   \<and> start_hour (new_slot (Some 1) (monday_2005 11) (monday_2005 13))
     = start_hour (new_slot (Some 1) (monday 11) (monday 13))
   \<and> end_hour (new_slot (Some 1) (monday_2005 11) (monday_2005 13))
     = end_hour (new_slot (Some 1) (monday 11) (monday 13))
   \<and> start_minute (new_slot (Some 1) (monday_2005 11) (monday_2005 13))
     = start_minute (new_slot (Some 1) (monday 11) (monday 13))
   \<and> end_minute (new_slot (Some 1) (monday_2005 11) (monday_2005 13))
     = end_minute (new_slot (Some 1) (monday 11) (monday 13))
   \<and> fst (Slot_save (new_slot (Some 1) (monday 11) (monday 13)) db_10_12)
     = Inl (ValidationError ''schedule'' ''Conflict Found'')
   \<and> Slot_save (new_slot (Some 1) (monday_2005 11) (monday_2005 13)) db_10_12
     = (Inr ((new_slot (Some 1) (monday_2005 11) (monday_2005 13))\<lparr>pk := Some 2\<rparr>),
        db_10_12\<lparr>slots := slots db_10_12 @ [(new_slot (Some 1) (monday_2005 11) (monday_2005 13))\<lparr>pk := Some 2\<rparr>]\<rparr>)"
  by (simp add: example_defs monday_2005_def start_day_of_the_week_def end_day_of_the_week_def
      start_hour_def end_hour_def start_minute_def end_minute_def weekday_def ymd2ord_def
      days_before_year_def days_before_month_def DAYS_BEFORE_MONTH_def is_leap_def)

text \<open>
  C5 (as the code has it). \<^verbatim>\<open>save\<close> refuses some saves of a stored slot and performs
  others. The filter does not leave out the slot's own row, so an instance with the
  computer and the two datetimes of a stored row, the end after the start, fails with the
  conflict and the database stays as it was. An instance of a stored slot that no stored
  row passes the filter for, as after a move to a free window or to another computer, is
  saved, and replaces its row in place.
\<close>

theorem resave_stored_slot:
  "(row \<in> set (slots db) \<and> computer self = computer row
      \<and> schedule_start self = schedule_start row \<and> schedule_end self = schedule_end row
      \<and> dt_gt (schedule_end self) (schedule_start self)
    \<longrightarrow> Slot_save self db = (Inl (ValidationError ''schedule'' ''Conflict Found''), db))
   \<and> (pk self = Some k \<and> (\<exists>row \<in> set (slots db). pk row = Some k)
        \<and> \<not> (\<exists>row \<in> set (slots db). conflict_filter self row)
      \<longrightarrow> Slot_save self db
            = (Inr self, db\<lparr>slots := map (\<lambda>r. if pk r = Some k then self else r) (slots db)\<rparr>))"
proof (intro conjI)
  show "row \<in> set (slots db) \<and> computer self = computer row
      \<and> schedule_start self = schedule_start row \<and> schedule_end self = schedule_end row
      \<and> dt_gt (schedule_end self) (schedule_start self)
    \<longrightarrow> Slot_save self db = (Inl (ValidationError ''schedule'' ''Conflict Found''), db)"
    by (auto simp add: Slot_save_def list_ex_iff conflict_filter_def dt_gt_def)
  show "pk self = Some k \<and> (\<exists>row \<in> set (slots db). pk row = Some k)
        \<and> \<not> (\<exists>row \<in> set (slots db). conflict_filter self row)
      \<longrightarrow> Slot_save self db
            = (Inr self, db\<lparr>slots := map (\<lambda>r. if pk r = Some k then self else r) (slots db)\<rparr>)"
    by (simp add: Slot_save_def Model_save_def list_ex_iff)
qed

theorem resave_stored_slot_witness:
  "stored_10_12 \<in> set (slots db_10_12)
   \<and> dt_gt (schedule_end (stored_10_12\<lparr>max_students := 5\<rparr>))
        (schedule_start (stored_10_12\<lparr>max_students := 5\<rparr>))
   \<and> Slot_save (stored_10_12\<lparr>max_students := 5\<rparr>) db_10_12
       = (Inl (ValidationError ''schedule'' ''Conflict Found''), db_10_12)
   \<and> pk (stored_10_12\<lparr>schedule_start := monday 12, schedule_end := monday 14\<rparr>) = Some 1
   \<and> (\<exists>row \<in> set (slots db_10_12). pk row = Some 1)
   \<and> \<not> (\<exists>row \<in> set (slots db_10_12).
          conflict_filter (stored_10_12\<lparr>schedule_start := monday 12, schedule_end := monday 14\<rparr>) row)
   \<and> Slot_save (stored_10_12\<lparr>schedule_start := monday 12, schedule_end := monday 14\<rparr>) db_10_12
       = (Inr (stored_10_12\<lparr>schedule_start := monday 12, schedule_end := monday 14\<rparr>),
          db_10_12\<lparr>slots := [stored_10_12\<lparr>schedule_start := monday 12, schedule_end := monday 14\<rparr>]\<rparr>)
   \<and> Slot_save (stored_10_12\<lparr>computer := Some 2\<rparr>) db_10_12
       = (Inr (stored_10_12\<lparr>computer := Some 2\<rparr>),
          db_10_12\<lparr>slots := [stored_10_12\<lparr>computer := Some 2\<rparr>]\<rparr>)"
  using resave_stored_slot [of stored_10_12 db_10_12 "stored_10_12\<lparr>max_students := 5\<rparr>" 1]
    resave_stored_slot [of stored_10_12 db_10_12
      "stored_10_12\<lparr>schedule_start := monday 12, schedule_end := monday 14\<rparr>" 1]
    resave_stored_slot [of stored_10_12 db_10_12 "stored_10_12\<lparr>computer := Some 2\<rparr>" 1]
  by (simp add: example_defs stored_10_12_def)

text \<open>
  C5 as stated fails: saving the stored slot [Mon 10:00, Mon 12:00) again, unchanged, is
  refused with the conflict.
\<close>

theorem resave_blocked_counterexample:
  "stored_10_12 \<in> set (slots db_10_12)
   \<and> dt_gt (schedule_end stored_10_12) (schedule_start stored_10_12)
   \<and> Slot_save stored_10_12 db_10_12
       = (Inl (ValidationError ''schedule'' ''Conflict Found''), db_10_12)"
  by (simp add: example_defs stored_10_12_def)

section \<open>Deleting a computer\<close>

text \<open>
  C6 (as the code has it). \<^verbatim>\<open>Slot.computer\<close> is declared with \<^verbatim>\<open>on_delete=PROTECT\<close>:
  deleting a computer that a slot refers to fails with \<^verbatim>\<open>ProtectedError\<close> and changes
  nothing, no reference is set to null and no slot is deleted; a computer that no slot
  refers to is removed.
\<close>

theorem Computer_delete_protected:
  "((\<exists>row \<in> set (slots db). computer row = Some c) \<longrightarrow>
      Computer_delete c db = (Inl ProtectedError, db))
   \<and> (\<not> (\<exists>row \<in> set (slots db). computer row = Some c) \<longrightarrow>
      Computer_delete c db
        = (Inr (), db\<lparr>computers := filter (\<lambda>r. pk r \<noteq> Some c) (computers db)\<rparr>))"
  by (simp add: Computer_delete_def delete_computer_with_def Slot_computer_on_delete_def
      list_ex_iff)

theorem Computer_delete_protected_witness:
  "(\<exists>row \<in> set (slots village_db). computer row = Some 1)
   \<and> Computer_delete 1 village_db = (Inl ProtectedError, village_db)
   \<and> \<not> (\<exists>row \<in> set (slots village_db). computer row = Some 2)
   \<and> Computer_delete 2 village_db = (Inr (), village_db)"
  using Computer_delete_protected [of village_db 1] Computer_delete_protected [of village_db 2]
  by (simp add: village_defs)

text \<open>
  C6 as stated fails: deleting computer 1, which a slot refers to, is refused, and the
  slot keeps its reference.
\<close>

theorem Computer_delete_counterexample:
  "map computer (slots village_db) = [Some 1]
   \<and> Computer_delete 1 village_db = (Inl ProtectedError, village_db)"
  by (simp add: village_defs Computer_delete_def delete_computer_with_def
      Slot_computer_on_delete_def)

section \<open>Permissions\<close>

lemma user_eq_iff: "user_eq u director \<longleftrightarrow> (\<exists>k. pk u = Some k \<and> director = Some k)"
  by (auto simp add: user_eq_def split: option.splits)

text \<open>
  C7. Object-level write permission on a slot is granted exactly to a superuser and to
  the user who is the director of the program of the slot's computer; update and read
  permission are the write permission. Permission to create a slot under the computer
  that the request names is granted exactly to a superuser and to the director of that
  computer's program.
\<close>

theorem Slot_permission_iff:
  "(Slot_has_object_write_permission self db request = Inr True \<longleftrightarrow>
      is_superuser (user request)
      \<or> (\<exists>c cpu p. computer self = Some c \<and> related (computers db) c = Inr cpu
            \<and> related (programs db) (program cpu) = Inr p
            \<and> user_eq (user request) (program_director p)))
   \<and> (computer self = Some c \<and> related (computers db) c = Inr cpu
        \<and> related (programs db) (program cpu) = Inr p \<longrightarrow>
      Slot_has_object_write_permission self db request
        = Inr (is_superuser (user request) \<or> user_eq (user request) (program_director p)))
   \<and> Slot_has_object_update_permission self db request
        = Slot_has_object_write_permission self db request
   \<and> Slot_has_object_read_permission self db request
        = Slot_has_object_write_permission self db request
   \<and> (Slot_has_create_permission db request = Inr True \<longleftrightarrow>
        (\<exists>ext cpu. kwargs request ''computer_external_id'' = Some ext
            \<and> objects_get (computers db) ext = Inr cpu
            \<and> (is_superuser (user request)
                \<or> (\<exists>p. related (programs db) (program cpu) = Inr p
                      \<and> user_eq (user request) (program_director p)))))
   \<and> (kwargs request ''computer_external_id'' = Some ext
        \<and> objects_get (computers db) ext = Inr cpu
        \<and> related (programs db) (program cpu) = Inr p \<longrightarrow>
      Slot_has_create_permission db request
        = Inr (is_superuser (user request) \<or> user_eq (user request) (program_director p)))"
proof (intro conjI)
  show "Slot_has_object_write_permission self db request = Inr True \<longleftrightarrow>
      is_superuser (user request)
      \<or> (\<exists>c cpu p. computer self = Some c \<and> related (computers db) c = Inr cpu
            \<and> related (programs db) (program cpu) = Inr p
            \<and> user_eq (user request) (program_director p))"
    by (auto simp add: Slot_has_object_write_permission_def split: option.splits sum.splits)
  show "computer self = Some c \<and> related (computers db) c = Inr cpu
        \<and> related (programs db) (program cpu) = Inr p \<longrightarrow>
      Slot_has_object_write_permission self db request
        = Inr (is_superuser (user request) \<or> user_eq (user request) (program_director p))"
    by (simp add: Slot_has_object_write_permission_def)
  show "Slot_has_object_update_permission self db request
        = Slot_has_object_write_permission self db request"
    by (simp add: Slot_has_object_update_permission_def)
  show "Slot_has_object_read_permission self db request
        = Slot_has_object_write_permission self db request"
    by (simp add: Slot_has_object_read_permission_def)
  show "Slot_has_create_permission db request = Inr True \<longleftrightarrow>
        (\<exists>ext cpu. kwargs request ''computer_external_id'' = Some ext
            \<and> objects_get (computers db) ext = Inr cpu
            \<and> (is_superuser (user request)
                \<or> (\<exists>p. related (programs db) (program cpu) = Inr p
                      \<and> user_eq (user request) (program_director p))))"
    by (auto simp add: Slot_has_create_permission_def split: option.splits sum.splits)
  show "kwargs request ''computer_external_id'' = Some ext
        \<and> objects_get (computers db) ext = Inr cpu
        \<and> related (programs db) (program cpu) = Inr p \<longrightarrow>
      Slot_has_create_permission db request
        = Inr (is_superuser (user request) \<or> user_eq (user request) (program_director p))"
    by (simp add: Slot_has_create_permission_def)
qed

theorem Slot_permission_iff_witness:
  "computer stored_10_12 = Some 1
   \<and> related (computers village_db) 1 = Inr \<lparr>pk = Some 1, external_id = ''c1'', program = 1\<rparr>
   \<and> related (programs village_db) 1 = Inr \<lparr>pk = Some 1, external_id = ''p1'', program_director = Some 7\<rparr>
   \<and> kwargs (request_of (Some 7) False) ''computer_external_id'' = Some ''c1''
   \<and> objects_get (computers village_db) ''c1'' = Inr \<lparr>pk = Some 1, external_id = ''c1'', program = 1\<rparr>
   \<and> Slot_has_object_write_permission stored_10_12 village_db (request_of (Some 7) False) = Inr True
   \<and> Slot_has_object_write_permission stored_10_12 village_db (request_of (Some 8) False) = Inr False
   \<and> Slot_has_create_permission village_db (request_of (Some 7) False) = Inr True
   \<and> Slot_has_create_permission village_db (request_of (Some 8) False) = Inr False"
  using Slot_permission_iff [of stored_10_12 village_db "request_of (Some 7) False" 1
      "\<lparr>pk = Some 1, external_id = ''c1'', program = 1\<rparr>"
      "\<lparr>pk = Some 1, external_id = ''p1'', program_director = Some 7\<rparr>" "''c1''"]
    Slot_permission_iff [of stored_10_12 village_db "request_of (Some 8) False" 1
      "\<lparr>pk = Some 1, external_id = ''c1'', program = 1\<rparr>"
      "\<lparr>pk = Some 1, external_id = ''p1'', program_director = Some 7\<rparr>" "''c1''"]
  by (simp add: village_defs related_def objects_get_def user_eq_def)

text \<open>
  C9. For a slot without a computer the write permission of a superuser is granted, and
  for any other user the check raises \<^verbatim>\<open>AttributeError\<close> instead of answering.
\<close>

theorem orphan_slot_permission:
  "computer self = None \<longrightarrow>
     (is_superuser (user request) \<longrightarrow>
        Slot_has_object_write_permission self db request = Inr True)
     \<and> (\<not> is_superuser (user request) \<longrightarrow>
        Slot_has_object_write_permission self db request = Inl AttributeError)"
  by (simp add: Slot_has_object_write_permission_def)

theorem orphan_slot_permission_witness:
  "computer (new_slot None (monday 10) (monday 12)) = None
   \<and> is_superuser (user (request_of (Some 9) True))
   \<and> Slot_has_object_write_permission (new_slot None (monday 10) (monday 12)) village_db
        (request_of (Some 9) True) = Inr True
   \<and> \<not> is_superuser (user (request_of (Some 7) False))
   \<and> Slot_has_object_write_permission (new_slot None (monday 10) (monday 12)) village_db
        (request_of (Some 7) False) = Inl AttributeError"
  using orphan_slot_permission [of "new_slot None (monday 10) (monday 12)" "request_of (Some 9) True" village_db]
    orphan_slot_permission [of "new_slot None (monday 10) (monday 12)" "request_of (Some 7) False" village_db]
  by (simp add: village_defs)

text \<open>
  C10. The collection-level write permission of Program, School, Computer and Slot is
  granted to every request; creating a program, by contrast, is for superusers.
\<close>

theorem has_write_permission_always:
  "Program_has_write_permission request \<and> School_has_write_permission request
   \<and> Computer_has_write_permission request \<and> Slot_has_write_permission request
   \<and> Program_has_create_permission request = is_superuser (user request)"
  by (simp add: Program_has_write_permission_def School_has_write_permission_def
      Computer_has_write_permission_def Slot_has_write_permission_def
      Program_has_create_permission_def)

section \<open>Capacity\<close>

lemma assign_times_fill:
  "max_students slot - assigned_students slot = int n \<Longrightarrow>
     \<exists>slot'. assign_times n slot = Inr slot'
        \<and> assigned_students slot' = max_students slot
        \<and> max_students slot' = max_students slot
        \<and> (0 < n \<longrightarrow> is_student_assigned slot')"
proof (induction n arbitrary: slot)
  case 0
  then show ?case by simp
next
  case (Suc n)
  let ?next = "slot\<lparr>assigned_students := assigned_students slot + 1, is_student_assigned := True\<rparr>"
  have step: "assignStudent slot = (Inr (), ?next)"
    using Suc.prems by (simp add: assignStudent_def)
  have "max_students ?next - assigned_students ?next = int n"
    using Suc.prems by simp
  then obtain slot' where run: "assign_times n ?next = Inr slot'"
    and full: "assigned_students slot' = max_students ?next"
    and cap: "max_students slot' = max_students ?next"
    and flag: "0 < n \<longrightarrow> is_student_assigned slot'"
    using Suc.IH [of ?next] by blast
  have "is_student_assigned slot'"
  proof (cases n)
    case 0
    then have "slot' = ?next" using run by simp
    then show ?thesis by simp
  next
    case (Suc m)
    then show ?thesis using flag by simp
  qed
  then show ?case
    using step run full cap by simp
qed

text \<open>
  C8 (as the code has it). A slot built with the defaults of the fields is within
  \<open>0 \<le> assigned_students \<le> max_students\<close> and \<open>assignStudent\<close> keeps a slot within it.
  \<open>assignStudent\<close> fails exactly when \<open>assigned_students = max_students\<close>, with
  \<open>CapacityExceededError\<close> and the slot unchanged; when it succeeds it adds one to
  \<open>assigned_students\<close> and sets \<open>is_student_assigned\<close>. From a slot with no student and
  \<open>max_students = n\<close>, \<open>n\<close> calls succeed and the next one fails.
\<close>

theorem assignStudent_capacity:
  "(isl (fst (assignStudent slot)) \<longleftrightarrow> assigned_students slot = max_students slot)
   \<and> (isl (fst (assignStudent slot)) \<longrightarrow>
        assignStudent slot = (Inl CapacityExceededError, slot))
   \<and> (\<not> isl (fst (assignStudent slot)) \<longrightarrow>
        assigned_students (snd (assignStudent slot)) = assigned_students slot + 1
        \<and> is_student_assigned (snd (assignStudent slot)))
   \<and> (capacity_ok slot \<longrightarrow> capacity_ok (snd (assignStudent slot)))
   \<and> capacity_ok (new_slot c a b)
   \<and> (assigned_students slot = 0 \<and> max_students slot = int n \<longrightarrow>
        (\<exists>slot'. assign_times n slot = Inr slot'
           \<and> assigned_students slot' = max_students slot
           \<and> capacity_ok slot'
           \<and> (0 < n \<longrightarrow> is_student_assigned slot')
           \<and> assignStudent slot' = (Inl CapacityExceededError, slot')))"
proof (intro conjI)
  show "isl (fst (assignStudent slot)) \<longleftrightarrow> assigned_students slot = max_students slot"
    by (simp add: assignStudent_def)
  show "isl (fst (assignStudent slot)) \<longrightarrow>
        assignStudent slot = (Inl CapacityExceededError, slot)"
    by (simp add: assignStudent_def)
  show "\<not> isl (fst (assignStudent slot)) \<longrightarrow>
        assigned_students (snd (assignStudent slot)) = assigned_students slot + 1
        \<and> is_student_assigned (snd (assignStudent slot))"
    by (simp add: assignStudent_def)
  show "capacity_ok slot \<longrightarrow> capacity_ok (snd (assignStudent slot))"
    by (simp add: assignStudent_def capacity_ok_def)
  show "capacity_ok (new_slot c a b)"
    by (simp add: capacity_ok_def new_slot_def)
  show "assigned_students slot = 0 \<and> max_students slot = int n \<longrightarrow>
        (\<exists>slot'. assign_times n slot = Inr slot'
           \<and> assigned_students slot' = max_students slot
           \<and> capacity_ok slot'
           \<and> (0 < n \<longrightarrow> is_student_assigned slot')
           \<and> assignStudent slot' = (Inl CapacityExceededError, slot'))"
  proof
    assume fresh: "assigned_students slot = 0 \<and> max_students slot = int n"
    then have "max_students slot - assigned_students slot = int n"
      by simp
    then obtain slot' where "assign_times n slot = Inr slot'"
      and "assigned_students slot' = max_students slot"
      and "max_students slot' = max_students slot"
      and "0 < n \<longrightarrow> is_student_assigned slot'"
      using assign_times_fill [of slot n] by blast
    then show "\<exists>slot'. assign_times n slot = Inr slot'
           \<and> assigned_students slot' = max_students slot
           \<and> capacity_ok slot'
           \<and> (0 < n \<longrightarrow> is_student_assigned slot')
           \<and> assignStudent slot' = (Inl CapacityExceededError, slot')"
      using fresh by (auto simp add: capacity_ok_def assignStudent_def)
  qed
qed

theorem assignStudent_capacity_witness:
  "assigned_students ((new_slot (Some 1) (monday 10) (monday 12))\<lparr>max_students := 2\<rparr>) = 0
   \<and> max_students ((new_slot (Some 1) (monday 10) (monday 12))\<lparr>max_students := 2\<rparr>) = int 2
   \<and> capacity_ok ((new_slot (Some 1) (monday 10) (monday 12))\<lparr>max_students := 2\<rparr>)
   \<and> \<not> isl (fst (assignStudent ((new_slot (Some 1) (monday 10) (monday 12))\<lparr>max_students := 2\<rparr>)))
   \<and> assign_times 2 ((new_slot (Some 1) (monday 10) (monday 12))\<lparr>max_students := 2\<rparr>)
       = Inr ((new_slot (Some 1) (monday 10) (monday 12))
                \<lparr>max_students := 2, assigned_students := 2, is_student_assigned := True\<rparr>)
   \<and> isl (fst (assignStudent ((new_slot (Some 1) (monday 10) (monday 12))
                \<lparr>max_students := 2, assigned_students := 2, is_student_assigned := True\<rparr>)))"
  using assignStudent_capacity [of "(new_slot (Some 1) (monday 10) (monday 12))\<lparr>max_students := 2\<rparr>"
      "Some 1" "monday 10" "monday 12" 2]
    assignStudent_capacity [of "(new_slot (Some 1) (monday 10) (monday 12))
                \<lparr>max_students := 2, assigned_students := 2, is_student_assigned := True\<rparr>"
      "Some 1" "monday 10" "monday 12" 0]
  by (simp add: new_slot_def assignStudent_def capacity_ok_def numeral_2_eq_2)

text \<open>
  C8 as stated fails: the two counters are plain integer fields, and \<^verbatim>\<open>save\<close> stores
  a slot with two students assigned and room for one.
\<close>

theorem capacity_counterexample:
  "Slot_save crowded_slot empty_db
     = (Inr (crowded_slot\<lparr>pk := Some 1\<rparr>), empty_db\<lparr>slots := [crowded_slot\<lparr>pk := Some 1\<rparr>]\<rparr>)
   \<and> assigned_students (crowded_slot\<lparr>pk := Some 1\<rparr>) = 2
   \<and> max_students (crowded_slot\<lparr>pk := Some 1\<rparr>) = 1
   \<and> \<not> capacity_ok (crowded_slot\<lparr>pk := Some 1\<rparr>)"
  by (simp add: example_defs crowded_slot_def capacity_ok_def)

end
